theory Spec2Isabelle
  imports Main
begin

section \<open>The pool worker of codeface: data and environment\<close>

text \<open>
  The worker of \<^verbatim>\<open>worker/worker.go\<close> keeps a pool of idled editor apps on the hosting
  platform. Everything it does to the platform goes through package \<^verbatim>\<open>editor\<close>
  (\<^verbatim>\<open>AllIdledApps\<close>, \<^verbatim>\<open>DeleteApp\<close>, \<^verbatim>\<open>NewDeployer\<close> and \<^verbatim>\<open>DeployEditorAndScaleDown\<close>) and
  through the actor group of \<^verbatim>\<open>oklog/run\<close>. Those are not part of the two files
  modelled here, so they are parameters: an environment over a platform state \<open>'w\<close>.
  The worker itself is modelled by explicit state passing; the state carries the platform
  and the trace of what the worker has done so far, in order.
\<close>

type_synonym error = string
type_synonym app = string

text \<open>
  \<^verbatim>\<open>Config\<close>: the fields the worker reads. Go's \<^verbatim>\<open>int\<close> is 64 bits wide here; the fields
  are integers and the one subtraction of the source wraps around explicitly
  (\<open>wrap_int\<close>). \<^verbatim>\<open>CheckInterval\<close> is a \<^verbatim>\<open>time.Duration\<close>, a number of nanoseconds.
\<close>

record Config =
  HerokuAPIKey :: string
  BatchSize :: int
  PoolSize :: int
  CheckInterval :: int
  TemplateDir :: string

definition wrap_int :: "int \<Rightarrow> int" where
  "wrap_int x = (x + 2 ^ 63) mod 2 ^ 64 - 2 ^ 63"

text \<open>The error of \<^verbatim>\<open>os.Stat\<close>, as far as \<^verbatim>\<open>os.IsNotExist\<close> tells errors apart.\<close>

datatype os_error = ErrNotExist | ErrPermission | ErrOther string

definition os_IsNotExist :: "os_error option \<Rightarrow> bool" where
  "os_IsNotExist err = (err = Some ErrNotExist)"

text \<open>
  The environment. \<open>AllIdledApps\<close> returns the apps of the current version and the apps
  of any other version, or an error. \<open>DeleteApp\<close> gives the outcome of deleting one
  app on the platform (\<open>None\<close>, or the platform's error); the source calls it as a
  statement, so the worker never sees that outcome. A group of \<open>n > 0\<close>
  deploy actors runs \<open>n\<close> calls of \<^verbatim>\<open>DeployEditorAndScaleDown\<close> concurrently; which of them
  finishes first and what \<^verbatim>\<open>g.Run()\<close> returns then depends on the scheduling, so the outcome
  of the whole group is the parameter \<open>RunDeploys\<close>. \<open>os_Stat\<close> is the error of
  \<^verbatim>\<open>os.Stat\<close> on a path.
\<close>

record 'w env =
  AllIdledApps :: "'w \<Rightarrow> (error + app list \<times> app list) \<times> 'w"
  DeleteApp :: "app \<Rightarrow> 'w \<Rightarrow> error option \<times> 'w"
  RunDeploys :: "nat \<Rightarrow> 'w \<Rightarrow> error option \<times> 'w"
  os_Stat :: "string \<Rightarrow> os_error option"

datatype event =
    Info string
  | InfoNum string int
  | InfoErr string error
  | ListCalled
  | DeployStarted
  | DeleteCalled app
  | Select

record 'w state =
  world :: 'w
  trace :: "event list"

definition emit :: "event \<Rightarrow> 'w state \<Rightarrow> 'w state" where
  "emit ev s = s\<lparr>trace := trace s @ [ev]\<rparr>"

definition listApps :: "'w env \<Rightarrow> 'w state \<Rightarrow> (error + app list \<times> app list) \<times> 'w state" where
  "listApps e s =
     (case AllIdledApps e (world s) of (r, w') \<Rightarrow> (r, emit ListCalled (s\<lparr>world := w'\<rparr>)))"

definition deleteApp :: "'w env \<Rightarrow> 'w state \<Rightarrow> app \<Rightarrow> 'w state" where
  "deleteApp e s a =
     (case DeleteApp e a (world s) of (r, w') \<Rightarrow> emit (DeleteCalled a) (s\<lparr>world := w'\<rparr>))"

datatype 'a result = Return 'a | Panic string

section \<open>removeOutdatedApps\<close>

text \<open>
  Lines 82 to 86: \<^verbatim>\<open>i := len(otherVersion); n := w.cfg.BatchSize; if n > i { n = i }\<close>.
\<close>

definition removals_n :: "Config \<Rightarrow> app list \<Rightarrow> int" where
  "removals_n cfg otherVersion =
     (let i = int (length otherVersion); n = BatchSize cfg
      in if n > i then i else n)"

text \<open>
  The slice expression \<^verbatim>\<open>otherVersion[0:n]\<close> panics for a negative \<open>n\<close>; \<open>n\<close> never
  exceeds the length. The loop deletes the apps of the slice one after the other.
\<close>

definition removeOutdatedApps ::
  "'w env \<Rightarrow> Config \<Rightarrow> 'w state \<Rightarrow> error option result \<times> 'w state" where
  "removeOutdatedApps e cfg s =
     (case listApps e s of
        (Inl err, s1) \<Rightarrow> (Return (Some err), s1)
      | (Inr (currentVersion, otherVersion), s1) \<Rightarrow>
          (let n = removals_n cfg otherVersion;
               s2 = emit (InfoNum ''Removing outdated apps from pool'' n) s1
           in if n < 0 then (Panic ''slice bounds out of range'', s2)
              else (Return None, foldl (deleteApp e) s2 (take (nat n) otherVersion))))"

section \<open>addAppsToPool\<close>

text \<open>
  Lines 102 to 106: \<^verbatim>\<open>i := w.cfg.PoolSize - len(currentVersion); n := w.cfg.BatchSize;
  if n > i { n = i }\<close>.
\<close>

definition additions_n :: "Config \<Rightarrow> app list \<Rightarrow> int" where
  "additions_n cfg currentVersion =
     (let i = wrap_int (PoolSize cfg - int (length currentVersion)); n = BatchSize cfg
      in if n > i then i else n)"

text \<open>
  Every actor of the group is the same pair of closures: execute deploys one editor and
  scales it down, interrupt cancels the shared context.
\<close>

datatype actor = DeployActor

text \<open>The loop \<^verbatim>\<open>for j := 0; j < n; j++ { g.Add(...) }\<close>.\<close>

function add_actors :: "int \<Rightarrow> int \<Rightarrow> actor list \<Rightarrow> actor list" where
  "add_actors j n g = (if j < n then add_actors (j + 1) n (g @ [DeployActor]) else g)"
  by pat_completeness auto
termination
  by (relation "measure (\<lambda>(j, n, g). nat (n - j))") auto

declare add_actors.simps [simp del]

text \<open>
  \<^verbatim>\<open>g.Run()\<close> of \<^verbatim>\<open>oklog/run\<close>. A group without actors has nothing to start and nothing
  to wait for: it returns \<^verbatim>\<open>nil\<close> at once. Otherwise the execute function of every actor
  is started, one deploy each, and the result of the group and the platform it leaves
  behind are the environment's.
\<close>

definition Run :: "'w env \<Rightarrow> actor list \<Rightarrow> 'w state \<Rightarrow> error option \<times> 'w state" where
  "Run e g s =
     (if g = [] then (None, s)
      else (case RunDeploys e (length g) (world s) of
              (r, w') \<Rightarrow> (r, s\<lparr>world := w', trace := trace s @ replicate (length g) DeployStarted\<rparr>)))"

definition addAppsToPool :: "'w env \<Rightarrow> Config \<Rightarrow> 'w state \<Rightarrow> error option \<times> 'w state" where
  "addAppsToPool e cfg s =
     (case listApps e s of
        (Inl err, s1) \<Rightarrow> (Some err, s1)
      | (Inr (currentVersion, otherVersion), s1) \<Rightarrow>
          (let n = additions_n cfg currentVersion;
               s2 = emit (InfoNum ''Adding apps to pool'' n) s1;
               g = add_actors 0 n []
           in Run e g s2))"

section \<open>Start\<close>

text \<open>The closure \<^verbatim>\<open>work\<close>: one cycle.\<close>

definition work :: "'w env \<Rightarrow> Config \<Rightarrow> 'w state \<Rightarrow> unit result \<times> 'w state" where
  "work e cfg s =
     (case addAppsToPool e cfg s of
        (Some err, s1) \<Rightarrow> (Return (), emit (InfoErr ''Fail to add apps to pool'' err) s1)
      | (None, s1) \<Rightarrow>
          (case removeOutdatedApps e cfg s1 of
             (Panic m, s2) \<Rightarrow> (Panic m, s2)
           | (Return (Some err), s2) \<Rightarrow>
               (Return (), emit (InfoErr ''Fail to remove outdated apps from pool'' err) s2)
           | (Return None, s2) \<Rightarrow> (Return (), s2)))"

text \<open>
  The loop blocks in \<^verbatim>\<open>select\<close> until the ticker or the context delivers. The list is
  what the successive \<^verbatim>\<open>select\<close> statements receive: \<open>Tick\<close> from \<^verbatim>\<open>t.C\<close>, \<open>Done\<close> from
  \<^verbatim>\<open>ctx.Done()\<close>. When the list is used up the loop is still waiting. Each entry into
  \<^verbatim>\<open>select\<close> is an event of the trace. A panic inside a cycle ends the program.
\<close>

datatype received = Tick | Done

datatype outcome = Returned "error option" | Waiting | Crashed string

fun loop :: "'w env \<Rightarrow> Config \<Rightarrow> received list \<Rightarrow> 'w state \<Rightarrow> outcome \<times> 'w state" where
  "loop e cfg [] s = (Waiting, emit Select s)"
| "loop e cfg (Tick # rs) s =
     (case work e cfg (emit Select s) of
        (Panic m, s1) \<Rightarrow> (Crashed m, s1)
      | (Return u, s1) \<Rightarrow> loop e cfg rs s1)"
| "loop e cfg (Done # rs) s = (Returned None, emit Select s)"

text \<open>
  \<^verbatim>\<open>Start\<close>. The template directory is checked first; \<^verbatim>\<open>time.NewTicker\<close> panics for an
  interval that is not positive; then comes the immediate first cycle, then the loop.
\<close>

definition Start :: "'w env \<Rightarrow> Config \<Rightarrow> received list \<Rightarrow> 'w state \<Rightarrow> outcome \<times> 'w state" where
  "Start e cfg rs s =
     (let s0 = emit (Info ''Starting worker'') s
      in if os_IsNotExist (os_Stat e (TemplateDir cfg))
         then (Returned (Some (''template directory '' @ TemplateDir cfg @ '' does not exist'')), s0)
         else if CheckInterval cfg \<le> 0
         then (Crashed ''non-positive interval for NewTicker'', s0)
         else (case work e cfg s0 of
                 (Panic m, s1) \<Rightarrow> (Crashed m, s1)
               | (Return u, s1) \<Rightarrow> loop e cfg rs s1))"

section \<open>The one-shot deploy tool\<close>

text \<open>
  \<^verbatim>\<open>cmd/cf-client/main.go\<close>. \<^verbatim>\<open>os.Getenv\<close> gives the empty string for a variable that is
  not set. \<^verbatim>\<open>log.Fatalf\<close> and \<^verbatim>\<open>log.Fatal\<close> write the log entry and exit with status 1; a
  \<^verbatim>\<open>main\<close> that returns exits with status 0. The deployer of package \<^verbatim>\<open>codeface\<close> is a
  parameter: from the access token and the app it gives the URL or an error (its build
  output goes to the standard error stream).
\<close>

definition os_Getenv :: "(string \<rightharpoonup> string) \<Rightarrow> string \<Rightarrow> string" where
  "os_Getenv environ k = (case environ k of None \<Rightarrow> [] | Some v \<Rightarrow> v)"

record process =
  exit_status :: nat
  stdout :: string
  logged :: "string list"

definition main :: "(string \<rightharpoonup> string) \<Rightarrow> (string \<Rightarrow> string \<Rightarrow> error + string) \<Rightarrow> process" where
  "main environ deploy =
     (let accessToken = os_Getenv environ ''HEROKU_API_TOKEN'';
          app = os_Getenv environ ''HEROKU_APP''
      in if accessToken = [] \<or> app = []
         then \<lparr>exit_status = 1, stdout = [],
               logged = [''Provide HEROKU_API_TOKEN and HEROKU_APP'']\<rparr>
         else (case deploy accessToken app of
                 Inl err \<Rightarrow> \<lparr>exit_status = 1, stdout = [], logged = [err]\<rparr>
               | Inr url \<Rightarrow>
                   \<lparr>exit_status = 0, stdout = ''Visit '' @ url @ [CHR 0x0A], logged = []\<rparr>))"

section \<open>A scripted platform for concrete runs\<close>

text \<open>
  A platform whose answers are scripted: the answers to the successive listing calls, the
  apps whose deletion fails, and the result of a group of deploys. It records what was
  deleted and how many deploys ran. The template directory \<^verbatim>\<open>/app/template\<close> exists,
  \<^verbatim>\<open>/root/template\<close> cannot be read, and no other path exists.
\<close>

record sim =
  listings :: "(error + app list \<times> app list) list"
  undeletable :: "app list"
  deleted :: "app list"
  deploy_result :: "error option"
  deployed :: nat

definition sim_env :: "sim env" where
  "sim_env =
     \<lparr>AllIdledApps = (\<lambda>w. case listings w of
                            [] \<Rightarrow> (Inl ''connection refused'', w)
                          | r # rs \<Rightarrow> (r, w\<lparr>listings := rs\<rparr>)),
      DeleteApp = (\<lambda>a w. if a \<in> set (undeletable w) then (Some ''delete failed'', w)
                          else (None, w\<lparr>deleted := deleted w @ [a]\<rparr>)),
      RunDeploys = (\<lambda>n w. (deploy_result w, w\<lparr>deployed := deployed w + n\<rparr>)),
      os_Stat = (\<lambda>p. if p = ''/app/template'' then None
                     else if p = ''/root/template'' then Some ErrPermission
                     else Some ErrNotExist)\<rparr>"

definition sim_start :: "(error + app list \<times> app list) list \<Rightarrow> error option \<Rightarrow> sim state" where
  "sim_start answers r =
     \<lparr>world = \<lparr>listings = answers, undeletable = [''old1''], deleted = [],
               deploy_result = r, deployed = 0\<rparr>,
      trace = []\<rparr>"

definition cfg_default :: Config where
  "cfg_default =
     \<lparr>HerokuAPIKey = ''secret'', BatchSize = 2, PoolSize = 5, CheckInterval = 60000000000,
      TemplateDir = ''/app/template''\<rparr>"

definition three_apps :: "app list" where
  "three_apps = [''new1'', ''new2'', ''new3'']"

definition five_apps :: "app list" where
  "five_apps = [''new1'', ''new2'', ''new3'', ''new4'', ''new5'']"

definition six_apps :: "app list" where
  "six_apps = [''new1'', ''new2'', ''new3'', ''new4'', ''new5'', ''new6'']"

definition old_apps :: "app list" where
  "old_apps = [''old1'', ''old2'', ''old3'']"

definition cfg_missing :: Config where
  "cfg_missing = cfg_default\<lparr>TemplateDir := ''/srv/template''\<rparr>"

definition cfg_unreadable :: Config where
  "cfg_unreadable = cfg_default\<lparr>TemplateDir := ''/root/template''\<rparr>"

definition environ_full :: "string \<rightharpoonup> string" where
  "environ_full = [''HEROKU_API_TOKEN'' \<mapsto> ''token'', ''HEROKU_APP'' \<mapsto> ''editor'']"

definition environ_no_app :: "string \<rightharpoonup> string" where
  "environ_no_app = [''HEROKU_API_TOKEN'' \<mapsto> ''token'']"

definition deploy_ok :: "string \<Rightarrow> string \<Rightarrow> error + string" where
  "deploy_ok accessToken app = Inr (''https://'' @ app @ ''.herokuapp.com'')"

definition deploy_fails :: "string \<Rightarrow> string \<Rightarrow> error + string" where
  "deploy_fails accessToken app = Inl ''build failed''"

section \<open>Basic facts\<close>

lemmas sim_defs = sim_env_def sim_start_def cfg_default_def cfg_missing_def cfg_unreadable_def
  three_apps_def five_apps_def six_apps_def old_apps_def

lemma wrap_int_id: "- (2 ^ 63) \<le> x \<Longrightarrow> x < 2 ^ 63 \<Longrightarrow> wrap_int x = x"
  by (simp add: wrap_int_def)

lemma add_actors_replicate: "add_actors j n g = g @ replicate (nat (n - j)) DeployActor"
proof (induction j n g rule: add_actors.induct)
  case (1 j n g)
  show ?case
  proof (cases "j < n")
    case True
    then have "nat (n - j) = Suc (nat (n - (j + 1)))" by simp
    with True 1 show ?thesis
      by (subst add_actors.simps) (simp add: replicate_append_same)
  next
    case False
    then show ?thesis by (subst add_actors.simps) simp
  qed
qed

lemmas run_defs = work_def addAppsToPool_def removeOutdatedApps_def listApps_def deleteApp_def
  emit_def Run_def additions_n_def removals_n_def wrap_int_def add_actors_replicate Let_def

lemma trace_emit [simp]: "trace (emit ev s) = trace s @ [ev]"
  by (simp add: emit_def)

lemma world_emit [simp]: "world (emit ev s) = world s"
  by (simp add: emit_def)

lemma trace_deleteApps: "trace (foldl (deleteApp e) s as) = trace s @ map DeleteCalled as"
  by (induction as arbitrary: s) (simp_all add: deleteApp_def split: prod.splits)

lemma world_deleteApps:
  "world (foldl (deleteApp e) s as) = foldl (\<lambda>w a. snd (DeleteApp e a w)) (world s) as"
  by (induction as arbitrary: s) (simp_all add: deleteApp_def split: prod.splits)

lemma listApps_eq:
  "listApps e s = (fst (AllIdledApps e (world s)),
                   s\<lparr>world := snd (AllIdledApps e (world s)), trace := trace s @ [ListCalled]\<rparr>)"
  by (simp add: listApps_def emit_def split: prod.splits)

section \<open>The planned numbers\<close>

lemma removals_n_min: "removals_n cfg otherVersion = min (BatchSize cfg) (int (length otherVersion))"
  by (simp add: removals_n_def Let_def min_def)

lemma additions_n_min:
  "additions_n cfg cur = min (BatchSize cfg) (wrap_int (PoolSize cfg - int (length cur)))"
  by (simp add: additions_n_def Let_def min_def)

lemma additions_n_nowrap:
  "0 \<le> PoolSize cfg \<Longrightarrow> PoolSize cfg < 2 ^ 63 \<Longrightarrow> int (length cur) < 2 ^ 63 \<Longrightarrow>
   additions_n cfg cur = min (BatchSize cfg) (PoolSize cfg - int (length cur))"
  by (simp add: additions_n_min wrap_int_id)

text \<open>
  C5. For a batch size that is not negative, the number of removals planned at lines 82
  to 86 is the smaller of the batch size and the number of outdated apps; it lies between
  0 and the batch size, does not exceed the number of outdated apps, and is 0 when no app
  is outdated.
\<close>

theorem removals_n_planned:
  "0 \<le> BatchSize cfg \<Longrightarrow>
     removals_n cfg otherVersion = min (BatchSize cfg) (int (length otherVersion)) \<and>
     0 \<le> removals_n cfg otherVersion \<and>
     removals_n cfg otherVersion \<le> BatchSize cfg \<and>
     removals_n cfg otherVersion \<le> int (length otherVersion) \<and>
     removals_n cfg [] = 0"
  by (simp add: removals_n_min)

theorem removals_n_planned_witness:
  "0 \<le> BatchSize cfg_default \<and> removals_n cfg_default [''old1''] = 1 \<and>
   removals_n cfg_default old_apps = 2 \<and> removals_n cfg_default [] = 0"
  using removals_n_planned [of cfg_default "[''old1'']"]
    removals_n_planned [of cfg_default old_apps]
  by (simp add: cfg_default_def old_apps_def)

text \<open>
  C3, as the code has it. For a batch size and a pool size that are not negative, the
  number \<open>n\<close> computed at lines 102 to 106 is the smaller of the batch size and
  \<open>poolSize - currentCount\<close>, with no lower bound at 0: it is negative when the pool holds
  more current apps than its size. The number of deploys the loop puts into the group is
  the smaller of the batch size and \<open>max 0 (poolSize - currentCount)\<close>; it lies between 0
  and the batch size, and no deploy is added when \<open>currentCount \<ge> poolSize\<close>.
\<close>

theorem additions_n_planned:
  "0 \<le> BatchSize cfg \<and> 0 \<le> PoolSize cfg \<and> PoolSize cfg < 2 ^ 63 \<and> int (length cur) < 2 ^ 63 \<longrightarrow>
     additions_n cfg cur = min (BatchSize cfg) (PoolSize cfg - int (length cur)) \<and>
     additions_n cfg cur \<le> BatchSize cfg \<and>
     int (length (add_actors 0 (additions_n cfg cur) [])) =
       min (BatchSize cfg) (max 0 (PoolSize cfg - int (length cur))) \<and>
     int (length (add_actors 0 (additions_n cfg cur) [])) \<le> BatchSize cfg \<and>
     (PoolSize cfg \<le> int (length cur) \<longrightarrow> add_actors 0 (additions_n cfg cur) [] = [])"
  by (auto simp: additions_n_nowrap add_actors_replicate)

theorem additions_n_planned_witness:
  "0 \<le> BatchSize cfg_default \<and> 0 \<le> PoolSize cfg_default \<and> PoolSize cfg_default < 2 ^ 63 \<and>
   int (length three_apps) < 2 ^ 63 \<and> int (length six_apps) < 2 ^ 63 \<and>
   PoolSize cfg_default \<le> int (length six_apps) \<and>
   additions_n cfg_default three_apps = 2 \<and>
   add_actors 0 (additions_n cfg_default three_apps) [] = [DeployActor, DeployActor] \<and>
   additions_n cfg_default six_apps = - 1 \<and>
   add_actors 0 (additions_n cfg_default six_apps) [] = []"
  using additions_n_planned [of cfg_default three_apps] additions_n_planned [of cfg_default six_apps]
  by (simp add: sim_defs additions_n_def wrap_int_def add_actors_replicate numeral_2_eq_2)

text \<open>
  With a pool size of 5, a batch size of 2 and six current apps the computed number is
  \<open>-1\<close>, not 0.
\<close>

theorem additions_n_negative:
  "additions_n cfg_default six_apps = - 1 \<and>
   additions_n cfg_default six_apps \<noteq>
     min (BatchSize cfg_default) (max 0 (PoolSize cfg_default - int (length six_apps)))"
  by (simp add: sim_defs additions_n_def wrap_int_def)

section \<open>The removal phase\<close>

lemma removeOutdatedApps_Inl:
  "fst (AllIdledApps e (world s)) = Inl err \<Longrightarrow>
   removeOutdatedApps e cfg s = (Return (Some err), snd (listApps e s))"
  by (simp add: removeOutdatedApps_def listApps_eq)

lemma removeOutdatedApps_Inr:
  "fst (AllIdledApps e (world s)) = Inr (cur, oth) \<Longrightarrow> 0 \<le> BatchSize cfg \<Longrightarrow>
   removeOutdatedApps e cfg s =
     (Return None,
      foldl (deleteApp e) (emit (InfoNum ''Removing outdated apps from pool'' (removals_n cfg oth))
                             (snd (listApps e s)))
        (take (nat (removals_n cfg oth)) oth))"
  by (simp add: removeOutdatedApps_def listApps_eq Let_def removals_n_min)

lemma removeOutdatedApps_Panic:
  "fst (AllIdledApps e (world s)) = Inr (cur, oth) \<Longrightarrow> BatchSize cfg < 0 \<Longrightarrow>
   fst (removeOutdatedApps e cfg s) = Panic ''slice bounds out of range''"
  by (simp add: removeOutdatedApps_def listApps_eq Let_def removals_n_min)

text \<open>
  C8. \<open>removeOutdatedApps\<close> returns an error exactly when its listing call failed. When
  the listing succeeded (and the batch size is not negative) it returns \<open>nil\<close> and has
  called \<open>DeleteApp\<close> once for each of the first \<open>n\<close> outdated apps, in order, whatever
  the outcome of each deletion was: a deletion that fails neither stops the loop nor
  reaches the caller.
\<close>

theorem removeOutdatedApps_delete_failures:
  "((\<exists>err. fst (removeOutdatedApps e cfg s) = Return (Some err)) \<longleftrightarrow>
      (\<exists>err. fst (AllIdledApps e (world s)) = Inl err)) \<and>
   (fst (AllIdledApps e (world s)) = Inr (cur, oth) \<and> 0 \<le> BatchSize cfg \<longrightarrow>
      fst (removeOutdatedApps e cfg s) = Return None \<and>
      trace (snd (removeOutdatedApps e cfg s)) =
        trace s @ [ListCalled, InfoNum ''Removing outdated apps from pool'' (removals_n cfg oth)]
          @ map DeleteCalled (take (nat (removals_n cfg oth)) oth) \<and>
      world (snd (removeOutdatedApps e cfg s)) =
        foldl (\<lambda>w a. snd (DeleteApp e a w)) (snd (AllIdledApps e (world s)))
          (take (nat (removals_n cfg oth)) oth))"
proof (cases "fst (AllIdledApps e (world s))")
  case (Inl err)
  then show ?thesis by (simp add: removeOutdatedApps_Inl)
next
  case (Inr p)
  obtain cur' oth' where p: "p = (cur', oth')" by (cases p)
  show ?thesis
  proof (cases "0 \<le> BatchSize cfg")
    case True
    with Inr p show ?thesis
      by (simp add: removeOutdatedApps_Inr trace_deleteApps world_deleteApps listApps_eq)
  next
    case False
    with Inr p show ?thesis
      using removeOutdatedApps_Panic [of e s cur' oth' cfg] by simp
  qed
qed

theorem removeOutdatedApps_delete_failures_witness:
  "fst (AllIdledApps sim_env (world (sim_start [Inr (five_apps, old_apps)] None))) =
     Inr (five_apps, old_apps) \<and>
   0 \<le> BatchSize cfg_default \<and>
   fst (DeleteApp sim_env ''old1'' (world (sim_start [Inr (five_apps, old_apps)] None))) =
     Some ''delete failed'' \<and>
   fst (removeOutdatedApps sim_env cfg_default (sim_start [Inr (five_apps, old_apps)] None)) =
     Return None \<and>
   trace (snd (removeOutdatedApps sim_env cfg_default (sim_start [Inr (five_apps, old_apps)] None))) =
     [ListCalled, InfoNum ''Removing outdated apps from pool'' 2,
      DeleteCalled ''old1'', DeleteCalled ''old2''] \<and>
   deleted (world (snd (removeOutdatedApps sim_env cfg_default
     (sim_start [Inr (five_apps, old_apps)] None)))) = [''old2''] \<and>
   fst (removeOutdatedApps sim_env cfg_default (sim_start [] None)) =
     Return (Some ''connection refused'')"
  using removeOutdatedApps_delete_failures
      [where e = sim_env and cfg = cfg_default
         and s = "sim_start [Inr (five_apps, old_apps)] None" and cur = five_apps and oth = old_apps]
    removeOutdatedApps_delete_failures
      [where e = sim_env and cfg = cfg_default and s = "sim_start [] None"]
  by (simp add: sim_defs run_defs numeral_2_eq_2)

section \<open>One cycle\<close>

lemma Run_Nil: "Run e [] s = (None, s)"
  by (simp add: Run_def)

lemma addAppsToPool_Inl:
  "fst (AllIdledApps e (world s)) = Inl err \<Longrightarrow>
   addAppsToPool e cfg s = (Some err, snd (listApps e s))"
  by (simp add: addAppsToPool_def listApps_eq)

lemma addAppsToPool_Inr:
  "fst (AllIdledApps e (world s)) = Inr (cur, oth) \<Longrightarrow>
   addAppsToPool e cfg s =
     Run e (replicate (nat (additions_n cfg cur)) DeployActor)
       (emit (InfoNum ''Adding apps to pool'' (additions_n cfg cur)) (snd (listApps e s)))"
  by (simp add: addAppsToPool_def listApps_eq Let_def add_actors_replicate)

lemma work_add_failed:
  "addAppsToPool e cfg s = (Some err, s1) \<Longrightarrow>
   work e cfg s = (Return (), emit (InfoErr ''Fail to add apps to pool'' err) s1)"
  by (simp add: work_def)

lemma work_add_ok:
  "addAppsToPool e cfg s = (None, s1) \<Longrightarrow>
   work e cfg s =
     (case removeOutdatedApps e cfg s1 of
        (Panic m, s2) \<Rightarrow> (Panic m, s2)
      | (Return (Some err), s2) \<Rightarrow>
          (Return (), emit (InfoErr ''Fail to remove outdated apps from pool'' err) s2)
      | (Return None, s2) \<Rightarrow> (Return (), s2))"
  by (simp add: work_def)

lemma work_removal_listed:
  assumes "addAppsToPool e cfg s = (None, s1)"
    and "fst (AllIdledApps e (world s1)) = Inr (cur, oth)" and "0 \<le> BatchSize cfg"
  shows "work e cfg s =
     (Return (),
      foldl (deleteApp e) (emit (InfoNum ''Removing outdated apps from pool'' (removals_n cfg oth))
                             (snd (listApps e s1)))
        (take (nat (removals_n cfg oth)) oth))"
  using assms by (simp add: work_add_ok removeOutdatedApps_Inr)

lemma work_removal_list_failed:
  assumes "addAppsToPool e cfg s = (None, s1)"
    and "fst (AllIdledApps e (world s1)) = Inl err"
  shows "work e cfg s =
     (Return (), emit (InfoErr ''Fail to remove outdated apps from pool'' err) (snd (listApps e s1)))"
  using assms by (simp add: work_add_ok removeOutdatedApps_Inl)

lemma removeOutdatedApps_trace:
  "\<exists>tr. trace (snd (removeOutdatedApps e cfg s)) = trace s @ ListCalled # tr \<and> Select \<notin> set tr"
proof (cases "fst (AllIdledApps e (world s))")
  case (Inl err)
  then show ?thesis by (simp add: removeOutdatedApps_Inl listApps_eq)
next
  case (Inr p)
  then show ?thesis
    by (cases p) (auto simp: removeOutdatedApps_def listApps_eq Let_def trace_deleteApps)
qed

lemma Run_trace:
  "trace (snd (Run e g s)) = trace s @ replicate (length g) DeployStarted"
  by (simp add: Run_def split: prod.splits)

lemma addAppsToPool_trace:
  "\<exists>tr. trace (snd (addAppsToPool e cfg s)) = trace s @ ListCalled # tr \<and> Select \<notin> set tr"
proof (cases "fst (AllIdledApps e (world s))")
  case (Inl err)
  then show ?thesis by (simp add: addAppsToPool_Inl listApps_eq)
next
  case (Inr p)
  then show ?thesis
    by (cases p) (simp add: addAppsToPool_Inr Run_trace listApps_eq)
qed

lemma work_trace:
  "\<exists>tr. trace (snd (work e cfg s)) = trace s @ ListCalled # tr \<and> Select \<notin> set tr"
proof -
  obtain r s1 where a: "addAppsToPool e cfg s = (r, s1)" by (cases "addAppsToPool e cfg s")
  from addAppsToPool_trace [of e cfg s] a
  obtain tr where tr: "trace s1 = trace s @ ListCalled # tr" "Select \<notin> set tr" by auto
  show ?thesis
  proof (cases r)
    case (Some err)
    with a tr show ?thesis by (simp add: work_add_failed)
  next
    case None
    from removeOutdatedApps_trace [of e cfg s1]
    obtain tr2 where tr2: "trace (snd (removeOutdatedApps e cfg s1)) = trace s1 @ ListCalled # tr2"
      "Select \<notin> set tr2" by auto
    obtain q s2 where q: "removeOutdatedApps e cfg s1 = (q, s2)"
      by (cases "removeOutdatedApps e cfg s1")
    with None a tr tr2 show ?thesis
      by (auto simp: work_add_ok split: result.splits option.splits)
  qed
qed

lemma work_no_panic: "0 \<le> BatchSize cfg \<Longrightarrow> fst (work e cfg s) = Return ()"
proof -
  assume b: "0 \<le> BatchSize cfg"
  obtain r s1 where a: "addAppsToPool e cfg s = (r, s1)" by (cases "addAppsToPool e cfg s")
  show ?thesis
  proof (cases r)
    case (Some err)
    with a show ?thesis by (simp add: work_add_failed)
  next
    case None
    show ?thesis
    proof (cases "fst (AllIdledApps e (world s1))")
      case (Inl err)
      with None a show ?thesis by (simp add: work_removal_list_failed)
    next
      case (Inr p)
      with None a b show ?thesis by (cases p) (simp add: work_removal_listed)
    qed
  qed
qed

text \<open>
  C4, as the code has it. In a cycle whose addition phase returns an error, the removal
  phase does not run: the cycle ends with the log entry of that error, with no further
  listing and no deletion. In a cycle whose addition phase succeeds, the removal phase
  first lists the pool itself. When that listing succeeds (with a batch size that is not
  negative), the removal phase calls \<open>DeleteApp\<close> for exactly the planned number of
  outdated apps, one after the other, and these are the first \<open>n\<close> outdated apps in the
  order of the listing. When that listing fails, the cycle ends with the log entry of the
  listing error and nothing is removed.
\<close>

theorem work_removal_phase:
  "(addAppsToPool e cfg s = (Some err, s1) \<longrightarrow>
      work e cfg s = (Return (), emit (InfoErr ''Fail to add apps to pool'' err) s1)) \<and>
   (addAppsToPool e cfg s = (None, s2) \<and> fst (AllIdledApps e (world s2)) = Inr (cur, oth) \<and>
    0 \<le> BatchSize cfg \<longrightarrow>
      fst (work e cfg s) = Return () \<and>
      trace (snd (work e cfg s)) =
        trace s2 @ [ListCalled, InfoNum ''Removing outdated apps from pool'' (removals_n cfg oth)]
          @ map DeleteCalled (take (nat (removals_n cfg oth)) oth) \<and>
      length (take (nat (removals_n cfg oth)) oth) = nat (removals_n cfg oth) \<and>
      world (snd (work e cfg s)) =
        foldl (\<lambda>w a. snd (DeleteApp e a w)) (snd (AllIdledApps e (world s2)))
          (take (nat (removals_n cfg oth)) oth)) \<and>
   (addAppsToPool e cfg s = (None, s3) \<and> fst (AllIdledApps e (world s3)) = Inl err3 \<longrightarrow>
      work e cfg s =
        (Return (),
         s3\<lparr>world := snd (AllIdledApps e (world s3)),
            trace := trace s3 @
              [ListCalled, InfoErr ''Fail to remove outdated apps from pool'' err3]\<rparr>))"
proof (intro conjI impI)
  assume "addAppsToPool e cfg s = (Some err, s1)"
  then show "work e cfg s = (Return (), emit (InfoErr ''Fail to add apps to pool'' err) s1)"
    by (rule work_add_failed)
next
  assume "addAppsToPool e cfg s = (None, s3) \<and> fst (AllIdledApps e (world s3)) = Inl err3"
  then show "work e cfg s =
        (Return (),
         s3\<lparr>world := snd (AllIdledApps e (world s3)),
            trace := trace s3 @
              [ListCalled, InfoErr ''Fail to remove outdated apps from pool'' err3]\<rparr>)"
    by (simp add: work_removal_list_failed listApps_eq emit_def)
next
  assume a: "addAppsToPool e cfg s = (None, s2) \<and>
    fst (AllIdledApps e (world s2)) = Inr (cur, oth) \<and> 0 \<le> BatchSize cfg"
  then have w: "work e cfg s =
     (Return (),
      foldl (deleteApp e) (emit (InfoNum ''Removing outdated apps from pool'' (removals_n cfg oth))
                             (snd (listApps e s2)))
        (take (nat (removals_n cfg oth)) oth))"
    by (simp add: work_removal_listed)
  show "fst (work e cfg s) = Return ()" by (simp add: w)
  show "trace (snd (work e cfg s)) =
          trace s2 @ [ListCalled, InfoNum ''Removing outdated apps from pool'' (removals_n cfg oth)]
            @ map DeleteCalled (take (nat (removals_n cfg oth)) oth)"
    by (simp add: w trace_deleteApps listApps_eq)
  show "length (take (nat (removals_n cfg oth)) oth) = nat (removals_n cfg oth)"
    by (simp add: removals_n_min)
  show "world (snd (work e cfg s)) =
          foldl (\<lambda>w a. snd (DeleteApp e a w)) (snd (AllIdledApps e (world s2)))
            (take (nat (removals_n cfg oth)) oth)"
    by (simp add: w world_deleteApps listApps_eq)
qed

theorem work_removal_phase_witness:
  "addAppsToPool sim_env cfg_default
      (sim_start [Inr (three_apps, [''old1''])] (Some ''quota exceeded'')) =
     (Some ''quota exceeded'',
      \<lparr>world = \<lparr>listings = [], undeletable = [''old1''], deleted = [],
                deploy_result = Some ''quota exceeded'', deployed = 2\<rparr>,
       trace = [ListCalled, InfoNum ''Adding apps to pool'' 2, DeployStarted, DeployStarted]\<rparr>) \<and>
   work sim_env cfg_default (sim_start [Inr (three_apps, [''old1''])] (Some ''quota exceeded'')) =
     (Return (),
      \<lparr>world = \<lparr>listings = [], undeletable = [''old1''], deleted = [],
                deploy_result = Some ''quota exceeded'', deployed = 2\<rparr>,
       trace = [ListCalled, InfoNum ''Adding apps to pool'' 2, DeployStarted, DeployStarted,
                InfoErr ''Fail to add apps to pool'' ''quota exceeded'']\<rparr>) \<and>
   fst (addAppsToPool sim_env cfg_default
      (sim_start [Inr (three_apps, old_apps), Inr (five_apps, old_apps)] None)) = None \<and>
   0 \<le> BatchSize cfg_default \<and>
   trace (snd (work sim_env cfg_default
      (sim_start [Inr (three_apps, old_apps), Inr (five_apps, old_apps)] None))) =
     [ListCalled, InfoNum ''Adding apps to pool'' 2, DeployStarted, DeployStarted,
      ListCalled, InfoNum ''Removing outdated apps from pool'' 2,
      DeleteCalled ''old1'', DeleteCalled ''old2''] \<and>
   addAppsToPool sim_env cfg_default (sim_start [Inr (five_apps, [''old2''])] None) =
     (None,
      \<lparr>world = \<lparr>listings = [], undeletable = [''old1''], deleted = [],
                deploy_result = None, deployed = 0\<rparr>,
       trace = [ListCalled, InfoNum ''Adding apps to pool'' 0]\<rparr>) \<and>
   work sim_env cfg_default (sim_start [Inr (five_apps, [''old2''])] None) =
     (Return (),
      \<lparr>world = \<lparr>listings = [], undeletable = [''old1''], deleted = [],
                deploy_result = None, deployed = 0\<rparr>,
       trace = [ListCalled, InfoNum ''Adding apps to pool'' 0, ListCalled,
                InfoErr ''Fail to remove outdated apps from pool'' ''connection refused'']\<rparr>)"
  using work_removal_phase
      [where e = sim_env and cfg = cfg_default
         and s = "sim_start [Inr (three_apps, [''old1''])] (Some ''quota exceeded'')"
         and err = "''quota exceeded''"
         and ?s1.0 = "\<lparr>world = \<lparr>listings = [], undeletable = [''old1''], deleted = [],
                deploy_result = Some ''quota exceeded'', deployed = 2\<rparr>,
       trace = [ListCalled, InfoNum ''Adding apps to pool'' 2, DeployStarted, DeployStarted]\<rparr>"]
    work_removal_phase
      [where e = sim_env and cfg = cfg_default
         and s = "sim_start [Inr (three_apps, old_apps), Inr (five_apps, old_apps)] None"
         and ?s2.0 = "\<lparr>world = \<lparr>listings = [Inr (five_apps, old_apps)], undeletable = [''old1''],
                deleted = [], deploy_result = None, deployed = 2\<rparr>,
       trace = [ListCalled, InfoNum ''Adding apps to pool'' 2, DeployStarted, DeployStarted]\<rparr>"
         and cur = five_apps and oth = old_apps]
    work_removal_phase
      [where e = sim_env and cfg = cfg_default
         and s = "sim_start [Inr (five_apps, [''old2''])] None"
         and ?s3.0 = "\<lparr>world = \<lparr>listings = [], undeletable = [''old1''], deleted = [],
                deploy_result = None, deployed = 0\<rparr>,
       trace = [ListCalled, InfoNum ''Adding apps to pool'' 0]\<rparr>"
         and ?err3.0 = "''connection refused''"]
  by (simp add: sim_defs run_defs numeral_2_eq_2)

text \<open>
  A cycle on a full pool with one outdated app that can be deleted, where the platform
  answers the first listing and refuses the second: the addition phase succeeds (it
  returns \<open>nil\<close>), the plan from the pool as listed would be one removal, and the cycle
  ends with the listing error and no call of \<open>DeleteApp\<close>.
\<close>

theorem work_removal_listing_fails:
  "fst (addAppsToPool sim_env cfg_default (sim_start [Inr (five_apps, [''old2''])] None)) = None \<and>
   removals_n cfg_default [''old2''] = 1 \<and>
   fst (DeleteApp sim_env ''old2'' (world (sim_start [Inr (five_apps, [''old2''])] None))) = None \<and>
   work sim_env cfg_default (sim_start [Inr (five_apps, [''old2''])] None) =
     (Return (),
      \<lparr>world = \<lparr>listings = [], undeletable = [''old1''], deleted = [],
                deploy_result = None, deployed = 0\<rparr>,
       trace = [ListCalled, InfoNum ''Adding apps to pool'' 0, ListCalled,
                InfoErr ''Fail to remove outdated apps from pool'' ''connection refused'']\<rparr>)"
  by (simp add: sim_defs run_defs numeral_2_eq_2)

text \<open>
  C10. In a cycle whose listing succeeds with at least \<open>poolSize\<close> current apps (for a
  pool size that is not negative), the computed number of additions is zero or negative,
  the group gets no actor, \<open>addAppsToPool\<close> starts no deploy and returns \<open>nil\<close> leaving
  the platform as the listing left it, and the cycle goes on to the removal phase, whose
  listing call is the next event.
\<close>

theorem addAppsToPool_pool_full:
  "fst (AllIdledApps e (world s)) = Inr (cur, oth) \<and> PoolSize cfg \<le> int (length cur) \<and>
   0 \<le> PoolSize cfg \<and> int (length cur) < 2 ^ 63 \<longrightarrow>
     additions_n cfg cur \<le> 0 \<and>
     add_actors 0 (additions_n cfg cur) [] = [] \<and>
     addAppsToPool e cfg s =
       (None, s\<lparr>world := snd (AllIdledApps e (world s)),
                trace := trace s @ [ListCalled, InfoNum ''Adding apps to pool'' (additions_n cfg cur)]\<rparr>) \<and>
     (\<exists>tr. trace (snd (work e cfg s)) =
        trace s @ [ListCalled, InfoNum ''Adding apps to pool'' (additions_n cfg cur), ListCalled] @ tr)"
proof (intro impI, elim conjE)
  assume l: "fst (AllIdledApps e (world s)) = Inr (cur, oth)"
    and full: "PoolSize cfg \<le> int (length cur)"
    and p: "0 \<le> PoolSize cfg" and len: "int (length cur) < 2 ^ 63"
  let ?n = "additions_n cfg cur"
  let ?s1 = "s\<lparr>world := snd (AllIdledApps e (world s)),
              trace := trace s @ [ListCalled, InfoNum ''Adding apps to pool'' ?n]\<rparr>"
  from full p len have n: "?n \<le> 0"
    by (simp add: additions_n_nowrap)
  then have g: "add_actors 0 ?n [] = []"
    by (simp add: add_actors_replicate)
  from l n have a: "addAppsToPool e cfg s = (None, ?s1)"
    by (simp add: addAppsToPool_Inr Run_Nil listApps_eq emit_def)
  from removeOutdatedApps_trace [of e cfg ?s1]
  obtain tr where tr: "trace (snd (removeOutdatedApps e cfg ?s1)) = trace ?s1 @ ListCalled # tr"
    by auto
  obtain q s2 where q: "removeOutdatedApps e cfg ?s1 = (q, s2)"
    by (cases "removeOutdatedApps e cfg ?s1")
  with tr have "\<exists>tr. trace (snd (work e cfg s)) =
        trace s @ [ListCalled, InfoNum ''Adding apps to pool'' ?n, ListCalled] @ tr"
    by (auto simp: work_add_ok [OF a] split: result.splits option.splits)
  with n g a show "?n \<le> 0 \<and> add_actors 0 ?n [] = [] \<and> addAppsToPool e cfg s = (None, ?s1) \<and>
     (\<exists>tr. trace (snd (work e cfg s)) =
        trace s @ [ListCalled, InfoNum ''Adding apps to pool'' ?n, ListCalled] @ tr)"
    by blast
qed

theorem addAppsToPool_pool_full_witness:
  "fst (AllIdledApps sim_env (world (sim_start [Inr (six_apps, old_apps), Inr (six_apps, old_apps)] None))) =
     Inr (six_apps, old_apps) \<and>
   PoolSize cfg_default \<le> int (length six_apps) \<and> 0 \<le> PoolSize cfg_default \<and>
   int (length six_apps) < 2 ^ 63 \<and>
   additions_n cfg_default six_apps = - 1 \<and>
   addAppsToPool sim_env cfg_default (sim_start [Inr (six_apps, old_apps), Inr (six_apps, old_apps)] None) =
     (None,
      \<lparr>world = \<lparr>listings = [Inr (six_apps, old_apps)], undeletable = [''old1''], deleted = [],
                deploy_result = None, deployed = 0\<rparr>,
       trace = [ListCalled, InfoNum ''Adding apps to pool'' (- 1)]\<rparr>) \<and>
   trace (snd (work sim_env cfg_default
      (sim_start [Inr (six_apps, old_apps), Inr (six_apps, old_apps)] None))) =
     [ListCalled, InfoNum ''Adding apps to pool'' (- 1), ListCalled,
      InfoNum ''Removing outdated apps from pool'' 2, DeleteCalled ''old1'', DeleteCalled ''old2'']"
  using addAppsToPool_pool_full
      [of sim_env "sim_start [Inr (six_apps, old_apps), Inr (six_apps, old_apps)] None"
          six_apps old_apps cfg_default]
  by (simp add: sim_defs run_defs numeral_2_eq_2)

text \<open>
  C1, as the code has it. Each phase of a cycle makes its own listing call. When the
  listing of the addition phase fails, the cycle ends there: both phases are skipped.
  When the addition phase succeeds, the removal phase lists the pool a second time, on the
  platform as the additions left it; the number of removals and the apps removed come
  from this second listing, and when it fails only the removal phase is skipped.
\<close>

theorem work_lists_twice:
  "(fst (AllIdledApps e (world s)) = Inl err \<longrightarrow>
      work e cfg s =
        (Return (), s\<lparr>world := snd (AllIdledApps e (world s)),
                      trace := trace s @ [ListCalled, InfoErr ''Fail to add apps to pool'' err]\<rparr>)) \<and>
   (addAppsToPool e cfg s = (None, s1) \<longrightarrow>
      (\<exists>tr. trace s1 = trace s @ ListCalled # tr) \<and>
      (\<exists>tr. trace (snd (work e cfg s)) = trace s1 @ ListCalled # tr) \<and>
      (fst (AllIdledApps e (world s1)) = Inl err2 \<longrightarrow>
         work e cfg s =
           (Return (), s1\<lparr>world := snd (AllIdledApps e (world s1)),
                          trace := trace s1 @
                            [ListCalled, InfoErr ''Fail to remove outdated apps from pool'' err2]\<rparr>)) \<and>
      (fst (AllIdledApps e (world s1)) = Inr (cur2, oth2) \<and> 0 \<le> BatchSize cfg \<longrightarrow>
         trace (snd (work e cfg s)) =
           trace s1 @ [ListCalled, InfoNum ''Removing outdated apps from pool'' (removals_n cfg oth2)]
             @ map DeleteCalled (take (nat (removals_n cfg oth2)) oth2)))"
proof (intro conjI impI)
  assume "fst (AllIdledApps e (world s)) = Inl err"
  then show "work e cfg s =
        (Return (), s\<lparr>world := snd (AllIdledApps e (world s)),
                      trace := trace s @ [ListCalled, InfoErr ''Fail to add apps to pool'' err]\<rparr>)"
    by (simp add: work_add_failed [OF addAppsToPool_Inl] listApps_eq emit_def)
next
  assume a: "addAppsToPool e cfg s = (None, s1)"
  from addAppsToPool_trace [of e cfg s] a
  show "\<exists>tr. trace s1 = trace s @ ListCalled # tr" by auto
  obtain q s2 where q: "removeOutdatedApps e cfg s1 = (q, s2)"
    by (cases "removeOutdatedApps e cfg s1")
  with removeOutdatedApps_trace [of e cfg s1]
  show "\<exists>tr. trace (snd (work e cfg s)) = trace s1 @ ListCalled # tr"
    by (auto simp: work_add_ok [OF a] split: result.splits option.splits)
next
  assume a: "addAppsToPool e cfg s = (None, s1)"
    and l: "fst (AllIdledApps e (world s1)) = Inl err2"
  then show "work e cfg s =
           (Return (), s1\<lparr>world := snd (AllIdledApps e (world s1)),
                          trace := trace s1 @
                            [ListCalled, InfoErr ''Fail to remove outdated apps from pool'' err2]\<rparr>)"
    by (simp add: work_removal_list_failed listApps_eq emit_def)
next
  assume a: "addAppsToPool e cfg s = (None, s1)"
    and l: "fst (AllIdledApps e (world s1)) = Inr (cur2, oth2) \<and> 0 \<le> BatchSize cfg"
  then show "trace (snd (work e cfg s)) =
           trace s1 @ [ListCalled, InfoNum ''Removing outdated apps from pool'' (removals_n cfg oth2)]
             @ map DeleteCalled (take (nat (removals_n cfg oth2)) oth2)"
    by (simp add: work_removal_listed trace_deleteApps listApps_eq)
qed

theorem work_lists_twice_witness:
  "fst (AllIdledApps sim_env (world (sim_start [] None))) = Inl ''connection refused'' \<and>
   work sim_env cfg_default (sim_start [] None) =
     (Return (),
      \<lparr>world = \<lparr>listings = [], undeletable = [''old1''], deleted = [],
                deploy_result = None, deployed = 0\<rparr>,
       trace = [ListCalled, InfoErr ''Fail to add apps to pool'' ''connection refused'']\<rparr>) \<and>
   addAppsToPool sim_env cfg_default (sim_start [Inr (five_apps, [''old1''])] None) =
     (None,
      \<lparr>world = \<lparr>listings = [], undeletable = [''old1''], deleted = [],
                deploy_result = None, deployed = 0\<rparr>,
       trace = [ListCalled, InfoNum ''Adding apps to pool'' 0]\<rparr>) \<and>
   work sim_env cfg_default (sim_start [Inr (five_apps, [''old1''])] None) =
     (Return (),
      \<lparr>world = \<lparr>listings = [], undeletable = [''old1''], deleted = [],
                deploy_result = None, deployed = 0\<rparr>,
       trace = [ListCalled, InfoNum ''Adding apps to pool'' 0, ListCalled,
                InfoErr ''Fail to remove outdated apps from pool'' ''connection refused'']\<rparr>) \<and>
   addAppsToPool sim_env cfg_default
      (sim_start [Inr (five_apps, [''old1'']), Inr (five_apps, old_apps)] None) =
     (None,
      \<lparr>world = \<lparr>listings = [Inr (five_apps, old_apps)], undeletable = [''old1''], deleted = [],
                deploy_result = None, deployed = 0\<rparr>,
       trace = [ListCalled, InfoNum ''Adding apps to pool'' 0]\<rparr>) \<and>
   0 \<le> BatchSize cfg_default \<and>
   trace (snd (work sim_env cfg_default
      (sim_start [Inr (five_apps, [''old1'']), Inr (five_apps, old_apps)] None))) =
     [ListCalled, InfoNum ''Adding apps to pool'' 0, ListCalled,
      InfoNum ''Removing outdated apps from pool'' 2, DeleteCalled ''old1'', DeleteCalled ''old2'']"
  using work_lists_twice
      [where e = sim_env and cfg = cfg_default and s = "sim_start [] None"
         and err = "''connection refused''"]
    work_lists_twice
      [where e = sim_env and cfg = cfg_default and s = "sim_start [Inr (five_apps, [''old1''])] None"
         and ?s1.0 = "\<lparr>world = \<lparr>listings = [], undeletable = [''old1''], deleted = [],
                deploy_result = None, deployed = 0\<rparr>,
              trace = [ListCalled, InfoNum ''Adding apps to pool'' 0]\<rparr>"
         and ?err2.0 = "''connection refused''"]
    work_lists_twice
      [where e = sim_env and cfg = cfg_default
         and s = "sim_start [Inr (five_apps, [''old1'']), Inr (five_apps, old_apps)] None"
         and ?s1.0 = "\<lparr>world = \<lparr>listings = [Inr (five_apps, old_apps)], undeletable = [''old1''],
                deleted = [], deploy_result = None, deployed = 0\<rparr>,
              trace = [ListCalled, InfoNum ''Adding apps to pool'' 0]\<rparr>"
         and ?cur2.0 = five_apps and ?oth2.0 = old_apps]
  by (simp add: sim_defs run_defs numeral_2_eq_2)

text \<open>
  A cycle on a full pool whose first listing shows one outdated app and whose second
  listing shows three: the pool is listed twice and two apps are removed, where the first
  listing would have planned one removal.
\<close>

theorem work_second_listing:
  "trace (snd (work sim_env cfg_default
      (sim_start [Inr (five_apps, [''old1'']), Inr (five_apps, old_apps)] None))) =
     [ListCalled, InfoNum ''Adding apps to pool'' 0, ListCalled,
      InfoNum ''Removing outdated apps from pool'' 2, DeleteCalled ''old1'', DeleteCalled ''old2''] \<and>
   removals_n cfg_default [''old1''] = 1"
  by (simp add: sim_defs run_defs numeral_2_eq_2)

section \<open>The scheduler loop\<close>

lemma loop_trace: "\<exists>tr. trace (snd (loop e cfg rs s)) = trace s @ Select # tr"
proof (induction rs arbitrary: s)
  case Nil
  show ?case by simp
next
  case (Cons r rs)
  show ?case
  proof (cases r)
    case Done
    then show ?thesis by simp
  next
    case Tick
    obtain q s1 where w: "work e cfg (emit Select s) = (q, s1)"
      by (cases "work e cfg (emit Select s)")
    from work_trace [of e cfg "emit Select s"] w
    obtain tr where tr: "trace s1 = trace s @ Select # ListCalled # tr" by auto
    show ?thesis
    proof (cases q)
      case (Panic m)
      with Tick w tr show ?thesis by simp
    next
      case (Return u)
      from Cons.IH [of s1]
      obtain tr2 where "trace (snd (loop e cfg rs s1)) = trace s1 @ Select # tr2" by auto
      with Return Tick w tr show ?thesis by simp
    qed
  qed
qed

lemma loop_ticks_Done:
  "0 \<le> BatchSize cfg \<Longrightarrow> fst (loop e cfg (replicate k Tick @ Done # rest) s) = Returned None"
proof (induction k arbitrary: s)
  case 0
  show ?case by simp
next
  case (Suc k)
  obtain s1 where w: "work e cfg (emit Select s) = (Return (), s1)"
    using work_no_panic [OF Suc.prems, of e "emit Select s"]
    by (cases "work e cfg (emit Select s)") simp
  with Suc.IH [OF Suc.prems, of s1] show ?case by simp
qed

lemma Start_exists:
  "\<not> os_IsNotExist (os_Stat e (TemplateDir cfg)) \<Longrightarrow> 0 < CheckInterval cfg \<Longrightarrow>
   0 \<le> BatchSize cfg \<Longrightarrow>
   Start e cfg rs s = loop e cfg rs (snd (work e cfg (emit (Info ''Starting worker'') s)))"
  using work_no_panic [of cfg e "emit (Info ''Starting worker'') s"]
  by (cases "work e cfg (emit (Info ''Starting worker'') s)") (simp add: Start_def Let_def)

text \<open>
  C6. When the template directory is there (and the interval is positive and the batch
  size not negative, so that nothing panics), \<open>Start\<close> runs one whole cycle before it
  enters \<^verbatim>\<open>select\<close> for the first time: the events of the first cycle come right after the
  start message, none of them is a wait, and the first wait follows them. When
  \<^verbatim>\<open>select\<close> receives from \<^verbatim>\<open>ctx.Done()\<close>, after any number of ticks, \<open>Start\<close> returns
  \<open>nil\<close>.
\<close>

theorem Start_first_cycle_and_shutdown:
  "\<not> os_IsNotExist (os_Stat e (TemplateDir cfg)) \<and> 0 < CheckInterval cfg \<and>
   0 \<le> BatchSize cfg \<longrightarrow>
     (\<exists>cyc tr.
        trace (snd (work e cfg (emit (Info ''Starting worker'') s))) =
          trace s @ Info ''Starting worker'' # cyc \<and>
        Select \<notin> set cyc \<and>
        trace (snd (Start e cfg rs s)) = trace s @ Info ''Starting worker'' # cyc @ Select # tr) \<and>
     fst (Start e cfg (replicate k Tick @ Done # rest) s) = Returned None"
proof (intro impI, elim conjE, intro conjI)
  assume ex: "\<not> os_IsNotExist (os_Stat e (TemplateDir cfg))" and i: "0 < CheckInterval cfg"
    and b: "0 \<le> BatchSize cfg"
  let ?s0 = "emit (Info ''Starting worker'') s"
  from work_trace [of e cfg ?s0]
  obtain c where c: "trace (snd (work e cfg ?s0)) = trace ?s0 @ ListCalled # c" "Select \<notin> set c"
    by auto
  from loop_trace [of e cfg rs "snd (work e cfg ?s0)"]
  obtain tr where tr: "trace (snd (loop e cfg rs (snd (work e cfg ?s0)))) =
      trace (snd (work e cfg ?s0)) @ Select # tr" by auto
  have "trace (snd (work e cfg ?s0)) = trace s @ Info ''Starting worker'' # (ListCalled # c)"
    using c by simp
  moreover have "Select \<notin> set (ListCalled # c)" using c by simp
  moreover have "trace (snd (Start e cfg rs s)) =
      trace s @ Info ''Starting worker'' # (ListCalled # c) @ Select # tr"
    using c tr by (simp add: Start_exists [OF ex i b])
  ultimately show "\<exists>cyc tr.
        trace (snd (work e cfg ?s0)) = trace s @ Info ''Starting worker'' # cyc \<and>
        Select \<notin> set cyc \<and>
        trace (snd (Start e cfg rs s)) = trace s @ Info ''Starting worker'' # cyc @ Select # tr"
    by blast
  show "fst (Start e cfg (replicate k Tick @ Done # rest) s) = Returned None"
    by (simp add: Start_exists [OF ex i b] loop_ticks_Done [OF b])
qed

theorem Start_first_cycle_and_shutdown_witness:
  "\<not> os_IsNotExist (os_Stat sim_env (TemplateDir cfg_default)) \<and>
   0 < CheckInterval cfg_default \<and> 0 \<le> BatchSize cfg_default \<and>
   fst (Start sim_env cfg_default (replicate 1 Tick @ Done # []) (sim_start [Inr (five_apps, [])] None)) =
     Returned None \<and>
   Start sim_env cfg_default [] (sim_start [Inr (five_apps, [])] None) =
     (Waiting,
      \<lparr>world = \<lparr>listings = [], undeletable = [''old1''], deleted = [],
                deploy_result = None, deployed = 0\<rparr>,
       trace = [Info ''Starting worker'', ListCalled, InfoNum ''Adding apps to pool'' 0, ListCalled,
                InfoErr ''Fail to remove outdated apps from pool'' ''connection refused'',
                Select]\<rparr>)"
  using Start_first_cycle_and_shutdown
      [where e = sim_env and cfg = cfg_default and k = 1 and rest = "[]"
         and s = "sim_start [Inr (five_apps, [])] None" and rs = "[]"]
  by (simp add: sim_defs run_defs Start_def os_IsNotExist_def)

text \<open>
  C7, as the code has it. When \<^verbatim>\<open>os.Stat\<close> reports that the template directory does not
  exist, \<open>Start\<close> returns an error at once, whatever the ticker and the context would
  deliver: it has written its start message and nothing else, and the platform is
  untouched. Any other outcome of \<^verbatim>\<open>os.Stat\<close>, another error included, lets \<open>Start\<close>
  go on: with a positive interval the first cycle runs and lists the pool.
\<close>

theorem Start_template_missing:
  "(os_Stat e (TemplateDir cfg) = Some ErrNotExist \<longrightarrow>
      Start e cfg rs s =
        (Returned (Some (''template directory '' @ TemplateDir cfg @ '' does not exist'')),
         s\<lparr>trace := trace s @ [Info ''Starting worker'']\<rparr>)) \<and>
   (os_Stat e (TemplateDir cfg) \<noteq> Some ErrNotExist \<and> 0 < CheckInterval cfg \<longrightarrow>
      (\<exists>tr. trace (snd (Start e cfg rs s)) = trace s @ [Info ''Starting worker'', ListCalled] @ tr))"
proof (intro conjI impI)
  assume "os_Stat e (TemplateDir cfg) = Some ErrNotExist"
  then show "Start e cfg rs s =
        (Returned (Some (''template directory '' @ TemplateDir cfg @ '' does not exist'')),
         s\<lparr>trace := trace s @ [Info ''Starting worker'']\<rparr>)"
    by (simp add: Start_def os_IsNotExist_def emit_def)
next
  assume n: "os_Stat e (TemplateDir cfg) \<noteq> Some ErrNotExist \<and> 0 < CheckInterval cfg"
  let ?s0 = "emit (Info ''Starting worker'') s"
  from work_trace [of e cfg ?s0]
  obtain c where c: "trace (snd (work e cfg ?s0)) = trace ?s0 @ ListCalled # c" by auto
  obtain r s1 where w: "work e cfg ?s0 = (r, s1)" by (cases "work e cfg ?s0")
  show "\<exists>tr. trace (snd (Start e cfg rs s)) = trace s @ [Info ''Starting worker'', ListCalled] @ tr"
  proof (cases r)
    case (Panic m)
    with n w c show ?thesis by (simp add: Start_def os_IsNotExist_def Let_def)
  next
    case (Return u)
    from loop_trace [of e cfg rs s1]
    obtain tr2 where "trace (snd (loop e cfg rs s1)) = trace s1 @ Select # tr2" by auto
    with Return n w c show ?thesis by (auto simp: Start_def os_IsNotExist_def Let_def)
  qed
qed

theorem Start_template_missing_witness:
  "os_Stat sim_env (TemplateDir cfg_missing) = Some ErrNotExist \<and>
   Start sim_env cfg_missing [Tick] (sim_start [Inr (five_apps, [])] None) =
     (Returned (Some ''template directory /srv/template does not exist''),
      \<lparr>world = \<lparr>listings = [Inr (five_apps, [])], undeletable = [''old1''], deleted = [],
                deploy_result = None, deployed = 0\<rparr>,
       trace = [Info ''Starting worker'']\<rparr>) \<and>
   os_Stat sim_env (TemplateDir cfg_unreadable) \<noteq> Some ErrNotExist \<and>
   0 < CheckInterval cfg_unreadable \<and>
   take 2 (trace (snd (Start sim_env cfg_unreadable [] (sim_start [Inr (five_apps, [])] None)))) =
     [Info ''Starting worker'', ListCalled]"
  using Start_template_missing
      [where e = sim_env and cfg = cfg_missing and rs = "[Tick]"
         and s = "sim_start [Inr (five_apps, [])] None"]
    Start_template_missing
      [where e = sim_env and cfg = cfg_unreadable and rs = "[]"
         and s = "sim_start [Inr (five_apps, [])] None"]
  by (auto simp: sim_defs)

text \<open>
  A template directory that exists but cannot be read: \<^verbatim>\<open>os.Stat\<close> fails with a
  permission error, \<open>Start\<close> returns no error, runs the first cycle with its two listing
  calls and waits for the ticker.
\<close>

theorem Start_unreadable_template:
  "os_Stat sim_env (TemplateDir cfg_unreadable) = Some ErrPermission \<and>
   Start sim_env cfg_unreadable [] (sim_start [Inr (five_apps, [])] None) =
     (Waiting,
      \<lparr>world = \<lparr>listings = [], undeletable = [''old1''], deleted = [],
                deploy_result = None, deployed = 0\<rparr>,
       trace = [Info ''Starting worker'', ListCalled, InfoNum ''Adding apps to pool'' 0, ListCalled,
                InfoErr ''Fail to remove outdated apps from pool'' ''connection refused'',
                Select]\<rparr>)"
  by (simp add: sim_defs run_defs Start_def os_IsNotExist_def)

section \<open>Exit status and output of the deploy tool\<close>

text \<open>
  C9. The deploy tool exits with status 1 and one log entry, printing nothing, when the
  access token or the app is missing from the environment or when the deploy fails; when
  the deploy succeeds it prints the URL of the app to the standard output and exits with
  status 0.
\<close>

theorem main_exit_status:
  "(os_Getenv environ ''HEROKU_API_TOKEN'' = [] \<or> os_Getenv environ ''HEROKU_APP'' = [] \<longrightarrow>
      main environ deploy =
        \<lparr>exit_status = 1, stdout = [], logged = [''Provide HEROKU_API_TOKEN and HEROKU_APP'']\<rparr>) \<and>
   (os_Getenv environ ''HEROKU_API_TOKEN'' \<noteq> [] \<and> os_Getenv environ ''HEROKU_APP'' \<noteq> [] \<longrightarrow>
      (deploy (os_Getenv environ ''HEROKU_API_TOKEN'') (os_Getenv environ ''HEROKU_APP'') = Inl err \<longrightarrow>
         main environ deploy = \<lparr>exit_status = 1, stdout = [], logged = [err]\<rparr>) \<and>
      (deploy (os_Getenv environ ''HEROKU_API_TOKEN'') (os_Getenv environ ''HEROKU_APP'') = Inr url \<longrightarrow>
         main environ deploy =
           \<lparr>exit_status = 0, stdout = ''Visit '' @ url @ [CHR 0x0A], logged = []\<rparr>))"
  by (simp add: main_def Let_def)

theorem main_exit_status_witness:
  "os_Getenv environ_no_app ''HEROKU_APP'' = [] \<and>
   main environ_no_app deploy_ok =
     \<lparr>exit_status = 1, stdout = [], logged = [''Provide HEROKU_API_TOKEN and HEROKU_APP'']\<rparr> \<and>
   os_Getenv environ_full ''HEROKU_API_TOKEN'' = ''token'' \<and>
   os_Getenv environ_full ''HEROKU_APP'' = ''editor'' \<and>
   deploy_fails ''token'' ''editor'' = Inl ''build failed'' \<and>
   main environ_full deploy_fails = \<lparr>exit_status = 1, stdout = [], logged = [''build failed'']\<rparr> \<and>
   deploy_ok ''token'' ''editor'' = Inr ''https://editor.herokuapp.com'' \<and>
   main environ_full deploy_ok =
     \<lparr>exit_status = 0, stdout = ''Visit https://editor.herokuapp.com'' @ [CHR 0x0A], logged = []\<rparr>"
  using main_exit_status [where environ = environ_no_app and deploy = deploy_ok]
    main_exit_status [where environ = environ_full and deploy = deploy_fails
      and err = "''build failed''"]
    main_exit_status [where environ = environ_full and deploy = deploy_ok
      and url = "''https://editor.herokuapp.com''"]
  by (simp add: os_Getenv_def environ_no_app_def environ_full_def deploy_ok_def deploy_fails_def)

end
